theory Spec2Isabelle
  imports Complex_Main "HOL-Library.Word" "HOL-Library.Product_Lexorder"
    "HOL-Library.List_Lexorder" "HOL-Library.Char_ord"
begin

unbundle bit_operations_syntax

section \<open>Floating-point values\<close>

text \<open>
  The pipeline computes on numpy and pandas floats. A float is modelled as a real number
  or one of the three special values; \<open>NaN\<close> is the value numpy writes as
  \<^verbatim>\<open>float("nan")\<close>. Arithmetic on finite values is the arithmetic of the reals:
  rounding, overflow to infinity and the sign of zero are not modelled. The special
  values follow IEEE 754: \<open>NaN\<close> is absorbing, \<open>inf - inf\<close> and \<open>0 * inf\<close> are
  \<open>NaN\<close>, and every comparison with \<open>NaN\<close> is false.
\<close>

datatype pyfloat = Finite real | PInf | NInf | NaN

fun isfinite :: "pyfloat \<Rightarrow> bool" where
  "isfinite (Finite r) = True"
| "isfinite x = False"

fun isnan :: "pyfloat \<Rightarrow> bool" where
  "isnan NaN = True"
| "isnan x = False"

fun fneg :: "pyfloat \<Rightarrow> pyfloat" where
  "fneg (Finite r) = Finite (- r)"
| "fneg PInf = NInf"
| "fneg NInf = PInf"
| "fneg NaN = NaN"

fun fadd :: "pyfloat \<Rightarrow> pyfloat \<Rightarrow> pyfloat" where
  "fadd NaN y = NaN"
| "fadd x NaN = NaN"
| "fadd (Finite a) (Finite b) = Finite (a + b)"
| "fadd PInf NInf = NaN"
| "fadd NInf PInf = NaN"
| "fadd PInf y = PInf"
| "fadd NInf y = NInf"
| "fadd x PInf = PInf"
| "fadd x NInf = NInf"

definition fsub :: "pyfloat \<Rightarrow> pyfloat \<Rightarrow> pyfloat" where
  "fsub x y = fadd x (fneg y)"

text \<open>The sign of a non-\<open>NaN\<close> float: \<open>-1\<close>, \<open>0\<close> or \<open>1\<close>.\<close>

fun fsign :: "pyfloat \<Rightarrow> int" where
  "fsign (Finite r) = (if r < 0 then - 1 else if r = 0 then 0 else 1)"
| "fsign PInf = 1"
| "fsign NInf = - 1"
| "fsign NaN = 0"

definition signed_inf :: "int \<Rightarrow> pyfloat" where
  "signed_inf s = (if s = 0 then NaN else if s < 0 then NInf else PInf)"

fun fmul :: "pyfloat \<Rightarrow> pyfloat \<Rightarrow> pyfloat" where
  "fmul NaN y = NaN"
| "fmul x NaN = NaN"
| "fmul (Finite a) (Finite b) = Finite (a * b)"
| "fmul x y = signed_inf (fsign x * fsign y)"

fun fdiv :: "pyfloat \<Rightarrow> pyfloat \<Rightarrow> pyfloat" where
  "fdiv NaN y = NaN"
| "fdiv x NaN = NaN"
| "fdiv (Finite a) (Finite b) = (if b = 0 then signed_inf (fsign (Finite a)) else Finite (a / b))"
| "fdiv (Finite a) y = Finite 0"
| "fdiv x (Finite b) = signed_inf (fsign x * (if b < 0 then - 1 else 1))"
| "fdiv x y = NaN"

fun fsqrt :: "pyfloat \<Rightarrow> pyfloat" where
  "fsqrt (Finite r) = (if r < 0 then NaN else Finite (sqrt r))"
| "fsqrt PInf = PInf"
| "fsqrt x = NaN"

fun fle :: "pyfloat \<Rightarrow> pyfloat \<Rightarrow> bool" where
  "fle NaN y = False"
| "fle x NaN = False"
| "fle (Finite a) (Finite b) = (a \<le> b)"
| "fle NInf y = True"
| "fle x PInf = True"
| "fle x y = False"

definition flt :: "pyfloat \<Rightarrow> pyfloat \<Rightarrow> bool" where
  "flt x y = (fle x y \<and> x \<noteq> y)"

text \<open>
  \<^verbatim>\<open>np.sort\<close> and \<^verbatim>\<open>np.argsort\<close> order floats with \<open>-inf\<close> first and \<open>NaN\<close> last;
  \<open>fkey\<close> is that order as a key.
\<close>

fun fkey :: "pyfloat \<Rightarrow> int \<times> real" where
  "fkey NInf = (0, 0)"
| "fkey (Finite r) = (1, r)"
| "fkey PInf = (2, 0)"
| "fkey NaN = (3, 0)"

definition np_sort :: "pyfloat list \<Rightarrow> pyfloat list" where
  "np_sort a = sort_key fkey a"

definition fsum :: "pyfloat list \<Rightarrow> pyfloat" where
  "fsum a = foldl fadd (Finite 0) a"

section \<open>numpy reductions\<close>

text \<open>
  \<^verbatim>\<open>a.mean()\<close>, \<^verbatim>\<open>np.median(a)\<close> and \<^verbatim>\<open>np.percentile(a, q)\<close> with numpy's default
  linear interpolation: the virtual index \<open>(n - 1) * q / 100\<close> lies between two
  neighbours of the sorted array, which \<open>np_lerp\<close> interpolates (numpy computes from
  the upper neighbour when the fraction is at least one half). On an empty array all
  three are \<open>NaN\<close>, and a \<open>NaN\<close> in the array makes the percentile \<open>NaN\<close>.
\<close>

definition np_mean :: "pyfloat list \<Rightarrow> pyfloat" where
  "np_mean a = fdiv (fsum a) (Finite (real (length a)))"

definition np_lerp :: "pyfloat \<Rightarrow> pyfloat \<Rightarrow> real \<Rightarrow> pyfloat" where
  "np_lerp a b t =
     (if t \<ge> 1 / 2 then fsub b (fmul (fsub b a) (Finite (1 - t)))
      else fadd a (fmul (fsub b a) (Finite t)))"

definition np_percentile :: "pyfloat list \<Rightarrow> real \<Rightarrow> pyfloat" where
  "np_percentile a q =
     (if a = [] \<or> NaN \<in> set a then NaN
      else
        let s = np_sort a;
            n = length a;
            v = real (n - 1) * (q / 100);
            prev = nat \<lfloor>v\<rfloor>;
            nxt = min (prev + 1) (n - 1)
        in np_lerp (s ! min prev (n - 1)) (s ! nxt) (v - real prev))"

definition np_median :: "pyfloat list \<Rightarrow> pyfloat" where
  "np_median a =
     (if a = [] \<or> NaN \<in> set a then NaN
      else
        let s = np_sort a; n = length a
        in if odd n then s ! (n div 2)
           else np_mean [s ! (n div 2 - 1), s ! (n div 2)])"


section \<open>Configuration (utils_config.py)\<close>

datatype py_exn = ValueError string | OtherError string

record TransformSpec =
  type :: string
  scale :: "pyfloat option"
  offset :: "pyfloat option"

record QualitySpec =
  enabled :: bool
  ecostress_companion_masks :: bool
  cloud_suffix :: string
  water_suffix :: string
  qc_suffix :: string
  lst_err_suffix :: string
  keep_cloud_values :: "int list"
  keep_water_values :: "int list"
  qc_keep_classes :: "int list"
  qc_class_bitmask :: int
  max_lst_err :: "pyfloat option"

record Config =
  nodata_below :: "pyfloat option"
  nodata_equals :: "pyfloat option"
  value_transform :: TransformSpec
  stats :: "string list"
  quality :: QualitySpec

section \<open>Value transform and statistic reduction (01_extract_zonal_timeseries.py)\<close>

text \<open>
  An array is the list of its cells in row-major order. \<open>transform_values\<close> multiplies
  and adds cell by cell; an unknown transform type raises \<open>ValueError\<close>.
\<close>

definition transform_values :: "pyfloat list \<Rightarrow> Config \<Rightarrow> py_exn + pyfloat list" where
  "transform_values arr cfg =
     (let ts = value_transform cfg in
      if type ts = ''identity'' then Inr arr
      else if type ts = ''scale_offset'' then
        (let scale = (case scale ts of None \<Rightarrow> Finite 1 | Some s \<Rightarrow> s);
             offset = (case offset ts of None \<Rightarrow> Finite 0 | Some b \<Rightarrow> b)
         in Inr (map (\<lambda>v. fadd (fmul v scale) offset) arr))
      else Inl (ValueError (''Unknown value_transform.type: '' @ type ts)))"

text \<open>
  \<open>safe_stat\<close> returns \<open>NaN\<close> for an array of size zero and for an array with no
  finite cell, before it looks at the statistic's name; otherwise it reduces the finite
  cells, and an unknown name raises \<open>ValueError\<close>.
\<close>

definition safe_stat :: "pyfloat list \<Rightarrow> string \<Rightarrow> py_exn + pyfloat" where
  "safe_stat arr stat =
     (if length arr = 0 then Inr NaN
      else
        let vals = filter isfinite arr in
        if length vals = 0 then Inr NaN
        else if stat = ''mean'' then Inr (np_mean vals)
        else if stat = ''median'' then Inr (np_median vals)
        else if stat = ''p90'' then Inr (np_percentile vals 90)
        else if stat = ''count'' then Inr (Finite (real (length vals)))
        else Inl (ValueError (''Unknown stat: '' @ stat)))"

section \<open>Statistic reduction on arrays without finite cells\<close>

text \<open>
  Claim C1. For each of the statistics mean, median, p90 and count (and for any other
  name), \<open>safe_stat\<close> returns \<open>NaN\<close> when the array has size zero and when it is
  non-empty but none of its cells is finite; so the count of an all-invalid tile is
  \<open>NaN\<close>, never \<open>0\<close>.
\<close>

theorem safe_stat_no_finite_nan:
  "filter isfinite arr = [] \<Longrightarrow> safe_stat arr stat = Inr NaN"
  by (simp add: safe_stat_def)

theorem safe_stat_no_finite_nan_witness:
  "filter isfinite [NaN, PInf, NaN] = [] \<and> safe_stat [NaN, PInf, NaN] ''count'' = Inr NaN
   \<and> safe_stat [] ''count'' = Inr NaN \<and> safe_stat [] ''mean'' = Inr NaN
   \<and> safe_stat [NaN] ''median'' = Inr NaN \<and> safe_stat [NaN] ''p90'' = Inr NaN"
  using safe_stat_no_finite_nan [of "[NaN, PInf, NaN]" "''count''"]
    safe_stat_no_finite_nan [of "[]" "''count''"]
    safe_stat_no_finite_nan [of "[]" "''mean''"]
    safe_stat_no_finite_nan [of "[NaN]" "''median''"]
    safe_stat_no_finite_nan [of "[NaN]" "''p90''"]
  by simp

section \<open>The value transform is pointwise\<close>

text \<open>
  Claim C8. The identity transform returns the array unchanged. The scale_offset
  transform with finite scale \<open>s\<close> and offset \<open>b\<close> (a missing scale is 1, a missing
  offset is 0) applies one function to every cell, and that function sends a finite
  value \<open>v\<close> to \<open>v * s + b\<close>.
\<close>

theorem transform_values_pointwise:
  "(type (value_transform cfg) = ''identity'' \<longrightarrow> transform_values arr cfg = Inr arr)
   \<and> (type (value_transform cfg) = ''scale_offset''
        \<and> (case scale (value_transform cfg) of None \<Rightarrow> Finite 1 | Some x \<Rightarrow> x) = Finite s
        \<and> (case offset (value_transform cfg) of None \<Rightarrow> Finite 0 | Some x \<Rightarrow> x) = Finite b
      \<longrightarrow> (\<exists>f. transform_values arr cfg = Inr (map f arr)
               \<and> (\<forall>v. f (Finite v) = Finite (v * s + b))))"
proof (intro conjI impI)
  assume "type (value_transform cfg) = ''identity''"
  then show "transform_values arr cfg = Inr arr"
    by (simp add: transform_values_def)
next
  assume a: "type (value_transform cfg) = ''scale_offset''
        \<and> (case scale (value_transform cfg) of None \<Rightarrow> Finite 1 | Some x \<Rightarrow> x) = Finite s
        \<and> (case offset (value_transform cfg) of None \<Rightarrow> Finite 0 | Some x \<Rightarrow> x) = Finite b"
  let ?f = "\<lambda>v. fadd (fmul v (Finite s)) (Finite b)"
  from a have "transform_values arr cfg = Inr (map ?f arr)"
    by (simp add: transform_values_def Let_def)
  moreover have "\<forall>v. ?f (Finite v) = Finite (v * s + b)"
    by simp
  ultimately show "\<exists>f. transform_values arr cfg = Inr (map f arr)
      \<and> (\<forall>v. f (Finite v) = Finite (v * s + b))"
    by blast
qed

definition kelvin_to_celsius :: Config where
  "kelvin_to_celsius =
     \<lparr> nodata_below = None, nodata_equals = None,
       value_transform = \<lparr> type = ''scale_offset'', scale = None, offset = Some (Finite (- 27315 / 100)) \<rparr>,
       stats = [''mean''],
       quality = \<lparr> enabled = False, ecostress_companion_masks = False,
         cloud_suffix = ''_cloud.tif'', water_suffix = ''_water.tif'', qc_suffix = ''_QC.tif'',
         lst_err_suffix = ''_LST_err.tif'', keep_cloud_values = [0], keep_water_values = [0],
         qc_keep_classes = [0, 1], qc_class_bitmask = 3, max_lst_err = None \<rparr> \<rparr>"

theorem transform_values_pointwise_witness:
  "\<exists>f. transform_values [Finite 300, NaN] kelvin_to_celsius = Inr (map f [Finite 300, NaN])
       \<and> f (Finite 300) = Finite (300 * 1 + (- 27315 / 100))"
proof -
  have "type (value_transform kelvin_to_celsius) = ''scale_offset''
      \<and> (case scale (value_transform kelvin_to_celsius) of None \<Rightarrow> Finite 1 | Some x \<Rightarrow> x) = Finite 1
      \<and> (case offset (value_transform kelvin_to_celsius) of None \<Rightarrow> Finite 0 | Some x \<Rightarrow> x)
          = Finite (- 27315 / 100)"
    by (simp add: kelvin_to_celsius_def)
  with transform_values_pointwise [of kelvin_to_celsius "[Finite 300, NaN]" 1 "- 27315 / 100"]
  show ?thesis by blast
qed

section \<open>Zonal statistics of one polygon (zonal_stats_for_geom)\<close>

text \<open>
  A raster source is known to \<open>zonal_stats_for_geom\<close> through three things: whether the
  box of its bounds intersects a geometry (the test may itself raise), its nodata value,
  and \<^verbatim>\<open>rasterio.mask.mask(src, [geom], crop=True, filled=True)\<close>, which returns the
  first band of the crop or raises: \<open>ValueError\<close> when the shape does not overlap the
  raster, another exception when the file cannot be read. The type \<open>'g\<close> is the
  geometry, \<open>'a\<close> the type of the raster's cells.
\<close>

record ('g, 'a) DatasetReader =
  bounds_intersects :: "'g \<Rightarrow> py_exn + bool"
  nodata :: "pyfloat option"
  mask_crop :: "'g \<Rightarrow> py_exn + 'a list"

text \<open>
  Every call of \<^verbatim>\<open>rasterio.mask.mask\<close> is recorded, so that a result comes with the
  list of the crops that were attempted to compute it.
\<close>

datatype mask_op = MaskPrimary | MaskCloud | MaskWater | MaskQC | MaskLstErr

type_synonym 'a traced = "mask_op list \<times> (py_exn + 'a)"

definition tbind :: "'a traced \<Rightarrow> ('a \<Rightarrow> 'b traced) \<Rightarrow> 'b traced" where
  "tbind m f =
     (case m of
        (ops, Inl e) \<Rightarrow> (ops, Inl e)
      | (ops, Inr x) \<Rightarrow> (case f x of (ops', r) \<Rightarrow> (ops @ ops', r)))"

definition untraced :: "py_exn + 'a \<Rightarrow> 'a traced" where
  "untraced r = ([], r)"

text \<open>
  The inner function \<^verbatim>\<open>_mask_band\<close>: no source gives \<open>None\<close>, a crop that raises
  \<open>ValueError\<close> gives \<open>None\<close>, any other exception propagates.
\<close>

definition mask_band :: "mask_op \<Rightarrow> 'g \<Rightarrow> ('g, 'a) DatasetReader option \<Rightarrow> 'a list option traced" where
  "mask_band op geom src_mask =
     (case src_mask of
        None \<Rightarrow> ([], Inr None)
      | Some s \<Rightarrow>
          (case mask_crop s geom of
             Inl (ValueError m) \<Rightarrow> ([op], Inr None)
           | Inl (OtherError m) \<Rightarrow> ([op], Inl (OtherError m))
           | Inr m_img \<Rightarrow> ([op], Inr (Some m_img))))"

text \<open>
  \<^verbatim>\<open>keep &= m\<close> on two arrays of one shape; numpy raises \<open>ValueError\<close> when the shape
  of \<open>m\<close> does not fit that of \<open>keep\<close>. Crops of co-registered rasters by one
  geometry have one shape, which the model reads off the number of cells; it does not
  stretch a band of one row or one column.
\<close>

definition iand :: "bool list \<Rightarrow> bool list \<Rightarrow> py_exn + bool list" where
  "iand keep m =
     (if length m = length keep then Inr (map2 (\<and>) keep m)
      else Inl (ValueError ''operands could not be broadcast together''))"

definition keep_channel :: "bool list \<Rightarrow> bool list option \<Rightarrow> bool list traced" where
  "keep_channel keep m = untraced (case m of None \<Rightarrow> Inr keep | Some b \<Rightarrow> iand keep b)"

definition feq :: "pyfloat \<Rightarrow> pyfloat \<Rightarrow> bool" where
  "feq x y = (x = y \<and> \<not> isnan x)"

definition set_nan_where :: "(pyfloat \<Rightarrow> bool) \<Rightarrow> pyfloat list \<Rightarrow> pyfloat list" where
  "set_nan_where P data = map (\<lambda>d. if P d then NaN else d) data"

definition mask_nodata :: "pyfloat option \<Rightarrow> Config \<Rightarrow> pyfloat list \<Rightarrow> pyfloat list" where
  "mask_nodata nd cfg data0 =
     (let data1 = (case nd of None \<Rightarrow> data0 | Some v \<Rightarrow> set_nan_where (\<lambda>d. feq d v) data0);
          data2 = (case nodata_equals cfg of None \<Rightarrow> data1
                   | Some v \<Rightarrow> set_nan_where (\<lambda>d. feq d v) data1)
      in (case nodata_below cfg of None \<Rightarrow> data2
          | Some v \<Rightarrow> set_nan_where (\<lambda>d. flt d v) data2))"

text \<open>
  The class of a QC cell: the cell as \<open>uint16\<close>, ANDed with the bitmask as \<open>uint16\<close>,
  then cast to \<open>uint8\<close>. Both conversions to \<open>uint16\<close> keep the low 16 bits.
\<close>

definition qc_class :: "int \<Rightarrow> int \<Rightarrow> 8 word" where
  "qc_class bitmask v = ucast ((word_of_int v :: 16 word) AND (word_of_int bitmask :: 16 word))"

text \<open>
  The quality block: the keep mask starts as the finite cells and each companion that
  yields a band is ANDed in; the uncertainty companion is cropped only when a ceiling
  is configured. Cells not kept become \<open>NaN\<close>.
\<close>

definition quality_mask ::
  "'g \<Rightarrow> Config \<Rightarrow> pyfloat list \<Rightarrow> ('g, int) DatasetReader option \<Rightarrow> ('g, int) DatasetReader option
   \<Rightarrow> ('g, int) DatasetReader option \<Rightarrow> ('g, pyfloat) DatasetReader option \<Rightarrow> pyfloat list traced" where
  "quality_mask geom cfg data cloud_src water_src qc_src lst_err_src =
     (let q = quality cfg in
      tbind (mask_band MaskCloud geom cloud_src) (\<lambda>cloud.
      tbind (keep_channel (map isfinite data)
               (map_option (map (\<lambda>c. c \<in> set (keep_cloud_values q))) cloud)) (\<lambda>keep1.
      tbind (mask_band MaskWater geom water_src) (\<lambda>water.
      tbind (keep_channel keep1
               (map_option (map (\<lambda>c. c \<in> set (keep_water_values q))) water)) (\<lambda>keep2.
      tbind (mask_band MaskQC geom qc_src) (\<lambda>qc.
      tbind (keep_channel keep2
               (map_option (map (\<lambda>c. uint (qc_class (qc_class_bitmask q) c) \<in> set (qc_keep_classes q))) qc))
        (\<lambda>keep3.
      tbind (case max_lst_err q of
               None \<Rightarrow> untraced (Inr keep3)
             | Some mx \<Rightarrow>
                 tbind (mask_band MaskLstErr geom lst_err_src) (\<lambda>err.
                 keep_channel keep3 (map_option (map (\<lambda>e. fle e mx)) err))) (\<lambda>keep.
      untraced (Inr (map2 (\<lambda>d k. if k then d else NaN) data keep))))))))))"

fun stats_dict :: "pyfloat list \<Rightarrow> string list \<Rightarrow> py_exn + (string \<times> pyfloat) list" where
  "stats_dict data [] = Inr []"
| "stats_dict data (stat # rest) =
     (case safe_stat data stat of
        Inl e \<Rightarrow> Inl e
      | Inr v \<Rightarrow> (case stats_dict data rest of Inl e \<Rightarrow> Inl e | Inr d \<Rightarrow> Inr ((stat, v) # d)))"

definition nan_stats :: "Config \<Rightarrow> (string \<times> pyfloat) list" where
  "nan_stats cfg = map (\<lambda>stat. (stat, NaN)) (stats cfg)"

text \<open>
  \<open>zonal_stats_for_geom\<close>. The result dictionary is the list of its items in the order
  of \<open>cfg.stats\<close> (a name listed twice gives the same item twice, where the dictionary
  keeps one). The fast reject returns when the bounds test answers that the box
  and the geometry do not intersect; a bounds test that raises falls through to the
  crop.
\<close>

definition zonal_stats_for_geom ::
  "('g, pyfloat) DatasetReader \<Rightarrow> 'g \<Rightarrow> Config \<Rightarrow> ('g, int) DatasetReader option
   \<Rightarrow> ('g, int) DatasetReader option \<Rightarrow> ('g, int) DatasetReader option
   \<Rightarrow> ('g, pyfloat) DatasetReader option \<Rightarrow> (string \<times> pyfloat) list traced" where
  "zonal_stats_for_geom src geom cfg cloud_src water_src qc_src lst_err_src =
     (if bounds_intersects src geom = Inr False then ([], Inr (nan_stats cfg))
      else
        (case mask_crop src geom of
           Inl (ValueError m) \<Rightarrow> ([MaskPrimary], Inr (nan_stats cfg))
         | Inl (OtherError m) \<Rightarrow> ([MaskPrimary], Inl (OtherError m))
         | Inr out_img \<Rightarrow>
             tbind ([MaskPrimary], Inr (mask_nodata (nodata src) cfg out_img)) (\<lambda>data.
             tbind (if enabled (quality cfg) \<and> ecostress_companion_masks (quality cfg)
                    then quality_mask geom cfg data cloud_src water_src qc_src lst_err_src
                    else untraced (Inr data)) (\<lambda>masked.
             tbind (untraced (transform_values masked cfg)) (\<lambda>out.
             untraced (stats_dict out (stats cfg)))))))"

section \<open>Opening the companion rasters (main)\<close>

text \<open>
  For a tile named \<^verbatim>\<open>*_LST.tif\<close>, \<open>main\<close> looks for the four companion files beside it.
  A candidate path is absent, exists but cannot be opened, or opens. The four are opened
  in one \<^verbatim>\<open>try\<close> block whose handler sets all four sources to \<open>None\<close>.
\<close>

datatype 's candidate = Absent | Unopenable | Openable 's

definition try_open :: "'s candidate \<Rightarrow> py_exn + 's option" where
  "try_open cand =
     (case cand of
        Absent \<Rightarrow> Inr None
      | Unopenable \<Rightarrow> Inl (OtherError ''RasterioIOError'')
      | Openable s \<Rightarrow> Inr (Some s))"

definition endswith :: "string \<Rightarrow> string \<Rightarrow> bool" where
  "endswith s suf = (length suf \<le> length s \<and> drop (length s - length suf) s = suf)"

definition open_companions ::
  "Config \<Rightarrow> string \<Rightarrow> ('g, int) DatasetReader candidate \<Rightarrow> ('g, int) DatasetReader candidate
   \<Rightarrow> ('g, int) DatasetReader candidate \<Rightarrow> ('g, pyfloat) DatasetReader candidate
   \<Rightarrow> ('g, int) DatasetReader option \<times> ('g, int) DatasetReader option
      \<times> ('g, int) DatasetReader option \<times> ('g, pyfloat) DatasetReader option" where
  "open_companions cfg name cand_cloud cand_water cand_qc cand_err =
     (if enabled (quality cfg) \<and> ecostress_companion_masks (quality cfg) \<and> endswith name ''_LST.tif''
      then
        (case try_open cand_cloud of
           Inl ex \<Rightarrow> (None, None, None, None)
         | Inr cloud_src \<Rightarrow>
        (case try_open cand_water of
           Inl ex \<Rightarrow> (None, None, None, None)
         | Inr water_src \<Rightarrow>
        (case try_open cand_qc of
           Inl ex \<Rightarrow> (None, None, None, None)
         | Inr qc_src \<Rightarrow>
        (case try_open cand_err of
           Inl ex \<Rightarrow> (None, None, None, None)
         | Inr lst_err_src \<Rightarrow> (cloud_src, water_src, qc_src, lst_err_src)))))
      else (None, None, None, None))"

text \<open>The body of \<open>main\<close>'s loop for one tile and one polygon: open, then compute.\<close>

definition main_zonal_record ::
  "Config \<Rightarrow> string \<Rightarrow> ('g, pyfloat) DatasetReader \<Rightarrow> 'g \<Rightarrow> ('g, int) DatasetReader candidate
   \<Rightarrow> ('g, int) DatasetReader candidate \<Rightarrow> ('g, int) DatasetReader candidate
   \<Rightarrow> ('g, pyfloat) DatasetReader candidate \<Rightarrow> (string \<times> pyfloat) list traced" where
  "main_zonal_record cfg name src geom cand_cloud cand_water cand_qc cand_err =
     (case open_companions cfg name cand_cloud cand_water cand_qc cand_err of
        (cloud_src, water_src, qc_src, lst_err_src) \<Rightarrow>
          zonal_stats_for_geom src geom cfg cloud_src water_src qc_src lst_err_src)"

text \<open>The source a channel has when only its own file decides: none when absent.\<close>

definition opened :: "'s candidate \<Rightarrow> 's option" where
  "opened cand = (case cand of Openable s \<Rightarrow> Some s | _ \<Rightarrow> None)"

subsection \<open>A tile with three polygons\<close>

text \<open>
  Polygon 0 lies in the tile, polygon 1 meets its bounds but its crop is empty, polygon
  2 lies outside. The cloud companion flags the second cell; the water companion does
  not overlap polygon 0; the corrupt cloud companion opens but cannot be read.
\<close>

definition tile_src :: "(nat, pyfloat) DatasetReader" where
  "tile_src =
     \<lparr> bounds_intersects = (\<lambda>g. Inr (g < 2)),
       nodata = Some (Finite (- 9999)),
       mask_crop = (\<lambda>g. if g = 0 then Inr [Finite 1, Finite 3, Finite (- 9999)]
                         else Inl (ValueError ''Input shapes do not overlap raster.'')) \<rparr>"

definition cloud_tile :: "(nat, int) DatasetReader" where
  "cloud_tile =
     \<lparr> bounds_intersects = (\<lambda>g. Inr (g < 2)),
       nodata = None,
       mask_crop = (\<lambda>g. if g = 0 then Inr [0, 1, 0]
                         else Inl (ValueError ''Input shapes do not overlap raster.'')) \<rparr>"

definition water_tile :: "(nat, int) DatasetReader" where
  "water_tile =
     \<lparr> bounds_intersects = (\<lambda>g. Inr False),
       nodata = None,
       mask_crop = (\<lambda>g. Inl (ValueError ''Input shapes do not overlap raster.'')) \<rparr>"

definition corrupt_cloud :: "(nat, int) DatasetReader" where
  "corrupt_cloud =
     \<lparr> bounds_intersects = (\<lambda>g. Inr (g < 2)),
       nodata = None,
       mask_crop = (\<lambda>g. Inl (OtherError ''RasterioIOError'')) \<rparr>"

definition masked_config :: Config where
  "masked_config =
     \<lparr> nodata_below = None, nodata_equals = None,
       value_transform = \<lparr> type = ''identity'', scale = None, offset = None \<rparr>,
       stats = [''mean'', ''count''],
       quality = \<lparr> enabled = True, ecostress_companion_masks = True,
         cloud_suffix = ''_cloud.tif'', water_suffix = ''_water.tif'', qc_suffix = ''_QC.tif'',
         lst_err_suffix = ''_LST_err.tif'', keep_cloud_values = [0], keep_water_values = [0],
         qc_keep_classes = [0, 1], qc_class_bitmask = 3, max_lst_err = None \<rparr> \<rparr>"

lemmas zonal_eval =
  main_zonal_record_def open_companions_def try_open_def endswith_def masked_config_def
  tile_src_def cloud_tile_def water_tile_def corrupt_cloud_def zonal_stats_for_geom_def
  quality_mask_def
  mask_band_def tbind_def untraced_def keep_channel_def iand_def mask_nodata_def
  set_nan_where_def feq_def transform_values_def safe_stat_def np_mean_def fsum_def
  signed_inf_def nan_stats_def

section \<open>Polygons outside the raster\<close>

text \<open>
  Claim C5. When the bounds test answers that the polygon does not intersect the raster,
  \<open>zonal_stats_for_geom\<close> returns \<open>NaN\<close> for every requested statistic with no crop
  attempted; when the crop of the raster raises \<open>ValueError\<close> (empty or non-overlapping
  intersection) it returns \<open>NaN\<close> for every requested statistic as well. Neither case
  raises.
\<close>

theorem zonal_stats_outside_nan:
  "(bounds_intersects src geom = Inr False \<longrightarrow>
      zonal_stats_for_geom src geom cfg cloud_src water_src qc_src lst_err_src
        = ([], Inr (map (\<lambda>stat. (stat, NaN)) (stats cfg))))
   \<and> (mask_crop src geom = Inl (ValueError m) \<longrightarrow>
      snd (zonal_stats_for_geom src geom cfg cloud_src water_src qc_src lst_err_src)
        = Inr (map (\<lambda>stat. (stat, NaN)) (stats cfg)))"
proof (intro conjI impI)
  assume "bounds_intersects src geom = Inr False"
  then show "zonal_stats_for_geom src geom cfg cloud_src water_src qc_src lst_err_src
        = ([], Inr (map (\<lambda>stat. (stat, NaN)) (stats cfg)))"
    by (simp add: zonal_stats_for_geom_def nan_stats_def)
next
  assume "mask_crop src geom = Inl (ValueError m)"
  then show "snd (zonal_stats_for_geom src geom cfg cloud_src water_src qc_src lst_err_src)
        = Inr (map (\<lambda>stat. (stat, NaN)) (stats cfg))"
    by (simp add: zonal_stats_for_geom_def nan_stats_def)
qed

theorem zonal_stats_outside_nan_witness:
  "bounds_intersects tile_src 2 = Inr False
   \<and> zonal_stats_for_geom tile_src 2 masked_config (Some cloud_tile) None None None
       = ([], Inr [(''mean'', NaN), (''count'', NaN)])
   \<and> bounds_intersects tile_src 1 = Inr True
   \<and> mask_crop tile_src 1 = Inl (ValueError ''Input shapes do not overlap raster.'')
   \<and> snd (zonal_stats_for_geom tile_src 1 masked_config (Some cloud_tile) None None None)
       = Inr [(''mean'', NaN), (''count'', NaN)]"
proof -
  have b: "bounds_intersects tile_src 2 = Inr False" "bounds_intersects tile_src 1 = Inr True"
    "mask_crop tile_src 1 = Inl (ValueError ''Input shapes do not overlap raster.'')"
    by (simp_all add: tile_src_def)
  have s: "stats masked_config = [''mean'', ''count'']"
    by (simp add: masked_config_def)
  from b s zonal_stats_outside_nan [of tile_src 2 masked_config "Some cloud_tile" None None None]
    zonal_stats_outside_nan [where src = tile_src and geom = 1 and cfg = masked_config
      and cloud_src = "Some cloud_tile" and water_src = None and qc_src = None
      and lst_err_src = None and m = "''Input shapes do not overlap raster.''"]
  show ?thesis by simp
qed

section \<open>Unknown statistic and transform names\<close>

lemma transform_values_unknown_type:
  assumes "type (value_transform cfg) \<noteq> ''identity''"
    and "type (value_transform cfg) \<noteq> ''scale_offset''"
  shows "\<exists>e. transform_values arr cfg = Inl e"
  using assms by (simp add: transform_values_def Let_def)

lemma safe_stat_unknown_stat_finite_cell:
  assumes "stat \<notin> {''mean'', ''median'', ''p90'', ''count''}"
    and "filter isfinite arr \<noteq> []"
  shows "safe_stat arr stat = Inl (ValueError (''Unknown stat: '' @ stat))"
proof -
  from assms(2) have "arr \<noteq> []" by auto
  with assms show ?thesis by (simp add: safe_stat_def Let_def)
qed

definition typo_config :: Config where
  "typo_config = masked_config \<lparr> stats := [''mean'', ''avg''] \<rparr>"

definition nodata_tile :: "(nat, pyfloat) DatasetReader" where
  "nodata_tile =
     \<lparr> bounds_intersects = (\<lambda>g. Inr True),
       nodata = Some (Finite (- 9999)),
       mask_crop = (\<lambda>g. Inr [Finite (- 9999), Finite (- 9999)]) \<rparr>"

text \<open>
  Claim C7. An unknown transform type always raises, and an unknown statistic name
  raises when the array has a finite cell (the two lemmas above). On an array of size
  zero, or one with no finite cell, \<open>safe_stat\<close> returns \<open>NaN\<close> for an unknown name
  instead of raising: the two early returns come before the name is looked at. So a
  configuration with the statistic \<open>avg\<close> yields a record with \<open>avg = NaN\<close> for a
  polygon whose cells are all nodata, and raises for a polygon with data.
\<close>

theorem safe_stat_unknown_stat_not_raised:
  "safe_stat [] ''avg'' = Inr NaN
   \<and> safe_stat [NaN, NaN] ''avg'' = Inr NaN
   \<and> safe_stat [NaN, Finite 1] ''avg'' = Inl (ValueError ''Unknown stat: avg'')
   \<and> snd (zonal_stats_for_geom nodata_tile 0 typo_config None None None None)
       = Inr [(''mean'', NaN), (''avg'', NaN)]
   \<and> snd (zonal_stats_for_geom tile_src 0 typo_config None None None None)
       = Inl (ValueError ''Unknown stat: avg'')"
  by (simp add: typo_config_def nodata_tile_def zonal_eval)

section \<open>Failures of companion rasters\<close>

lemma snd_tbind:
  "snd (tbind m f) = (case snd m of Inl e \<Rightarrow> Inl e | Inr x \<Rightarrow> snd (f x))"
  by (cases m) (auto simp: tbind_def split: sum.splits prod.splits)

lemma snd_tbind_cong:
  assumes "snd m = snd m'" and "\<And>x. snd (f x) = snd (f' x)"
  shows "snd (tbind m f) = snd (tbind m' f')"
  using assms by (simp add: snd_tbind split: sum.splits)

lemma snd_mask_band_ValueError:
  assumes "mask_crop s geom = Inl (ValueError m)"
  shows "snd (mask_band op geom (Some s)) = snd (mask_band op geom None)"
  using assms by (simp add: mask_band_def)

lemma quality_mask_cloud_ValueError:
  assumes "mask_crop s geom = Inl (ValueError m)"
  shows "snd (quality_mask geom cfg data (Some s) w q e) = snd (quality_mask geom cfg data None w q e)"
  unfolding quality_mask_def Let_def
  by (intro snd_tbind_cong refl snd_mask_band_ValueError [OF assms])

lemma quality_mask_water_ValueError:
  assumes "mask_crop s geom = Inl (ValueError m)"
  shows "snd (quality_mask geom cfg data c (Some s) q e) = snd (quality_mask geom cfg data c None q e)"
  unfolding quality_mask_def Let_def
  by (intro snd_tbind_cong refl snd_mask_band_ValueError [OF assms])

lemma quality_mask_qc_ValueError:
  assumes "mask_crop s geom = Inl (ValueError m)"
  shows "snd (quality_mask geom cfg data c w (Some s) e) = snd (quality_mask geom cfg data c w None e)"
  unfolding quality_mask_def Let_def
  by (intro snd_tbind_cong refl snd_mask_band_ValueError [OF assms])

lemma quality_mask_err_ValueError:
  assumes "mask_crop s geom = Inl (ValueError m)"
  shows "snd (quality_mask geom cfg data c w q (Some s)) = snd (quality_mask geom cfg data c w q None)"
  unfolding quality_mask_def Let_def
  by (intro snd_tbind_cong refl)
     (auto split: option.splits intro!: snd_tbind_cong snd_mask_band_ValueError [OF assms])

lemma zonal_stats_snd_cong:
  assumes "\<And>data. snd (quality_mask geom cfg data c w q e) = snd (quality_mask geom cfg data c' w' q' e')"
  shows "snd (zonal_stats_for_geom src geom cfg c w q e)
       = snd (zonal_stats_for_geom src geom cfg c' w' q' e')"
proof (cases "mask_crop src geom")
  case (Inl ex)
  then show ?thesis
    by (cases ex) (simp_all add: zonal_stats_for_geom_def)
next
  case (Inr out_img)
  show ?thesis
    unfolding zonal_stats_for_geom_def Inr
    by (auto intro!: snd_tbind_cong simp: assms)
qed

lemma cloud_crop_error_fatal:
  assumes "enabled (quality cfg)" and "ecostress_companion_masks (quality cfg)"
    and "bounds_intersects src geom \<noteq> Inr False" and "mask_crop src geom = Inr img"
    and "mask_crop s geom = Inl (OtherError m)"
  shows "snd (zonal_stats_for_geom src geom cfg (Some s) w q e) = Inl (OtherError m)"
  using assms
  by (simp add: zonal_stats_for_geom_def quality_mask_def mask_band_def snd_tbind Let_def)

lemma open_companions_all_open:
  assumes "enabled (quality cfg)" and "ecostress_companion_masks (quality cfg)"
    and "endswith name ''_LST.tif''"
    and "cc \<noteq> Unopenable" and "cw \<noteq> Unopenable" and "cq \<noteq> Unopenable" and "ce \<noteq> Unopenable"
  shows "open_companions cfg name cc cw cq ce = (opened cc, opened cw, opened cq, opened ce)"
  using assms
  by (cases cc; cases cw; cases cq; cases ce)
     (simp_all add: open_companions_def try_open_def opened_def)

lemma open_companions_one_fails:
  assumes "cc = Unopenable \<or> cw = Unopenable \<or> cq = Unopenable \<or> ce = Unopenable"
  shows "open_companions cfg name cc cw cq ce = (None, None, None, None)"
  using assms
  by (cases cc; cases cw; cases cq; cases ce)
     (simp_all add: open_companions_def try_open_def)

text \<open>
  Claim C6, as stated, fails where a companion fails to open: the handler of the
  \<^verbatim>\<open>try\<close> block disables all four channels. With a cloud companion that rejects the
  second cell and a water companion that cannot be opened, the record is computed with
  no mask at all (mean 2 over two cells); with the water companion merely absent the
  cloud channel still applies (mean 1 over one cell). A companion whose crop fails with
  another error than \<open>ValueError\<close> is fatal to the record.
\<close>

theorem open_failure_disables_all_channels:
  "snd (main_zonal_record masked_config ''t_LST.tif'' tile_src 0
          (Openable cloud_tile) Unopenable Absent Absent)
     = Inr [(''mean'', Finite 2), (''count'', Finite 2)]
   \<and> snd (main_zonal_record masked_config ''t_LST.tif'' tile_src 0
          (Openable cloud_tile) Absent Absent Absent)
     = Inr [(''mean'', Finite 1), (''count'', Finite 1)]
   \<and> snd (main_zonal_record masked_config ''t_LST.tif'' tile_src 0
          (Openable corrupt_cloud) Absent Absent Absent)
     = Inl (OtherError ''RasterioIOError'')"
  by (simp add: zonal_eval)

text \<open>
  Claim C6, amended. A companion whose crop raises \<open>ValueError\<close> gives the statistics of
  the same call without that companion, whatever the other three channels are; when
  masking is active and no companion fails to open, each channel has a source exactly
  when its own file is there; and when some companion fails to open, all four channels
  are without a source. None of the three adds an exception to the record. A crop of the
  cloud companion that fails with another error ends the record with that error.
\<close>

theorem companion_failure_effect:
  "(\<forall>s m. mask_crop s geom = Inl (ValueError m) \<longrightarrow>
       snd (zonal_stats_for_geom src geom cfg (Some s) water_src qc_src lst_err_src)
         = snd (zonal_stats_for_geom src geom cfg None water_src qc_src lst_err_src))
   \<and> (\<forall>s m. mask_crop s geom = Inl (ValueError m) \<longrightarrow>
       snd (zonal_stats_for_geom src geom cfg cloud_src (Some s) qc_src lst_err_src)
         = snd (zonal_stats_for_geom src geom cfg cloud_src None qc_src lst_err_src))
   \<and> (\<forall>s m. mask_crop s geom = Inl (ValueError m) \<longrightarrow>
       snd (zonal_stats_for_geom src geom cfg cloud_src water_src (Some s) lst_err_src)
         = snd (zonal_stats_for_geom src geom cfg cloud_src water_src None lst_err_src))
   \<and> (\<forall>s m. mask_crop s geom = Inl (ValueError m) \<longrightarrow>
       snd (zonal_stats_for_geom src geom cfg cloud_src water_src qc_src (Some s))
         = snd (zonal_stats_for_geom src geom cfg cloud_src water_src qc_src None))
   \<and> (enabled (quality cfg) \<and> ecostress_companion_masks (quality cfg) \<and> endswith name ''_LST.tif''
        \<and> cc \<noteq> Unopenable \<and> cw \<noteq> Unopenable \<and> cq \<noteq> Unopenable \<and> ce \<noteq> Unopenable \<longrightarrow>
       open_companions cfg name cc cw cq ce = (opened cc, opened cw, opened cq, opened ce)
       \<and> main_zonal_record cfg name src geom cc cw cq ce
           = zonal_stats_for_geom src geom cfg (opened cc) (opened cw) (opened cq) (opened ce))
   \<and> (cc = Unopenable \<or> cw = Unopenable \<or> cq = Unopenable \<or> ce = Unopenable \<longrightarrow>
       open_companions cfg name cc cw cq ce = (None, None, None, None)
       \<and> main_zonal_record cfg name src geom cc cw cq ce
           = zonal_stats_for_geom src geom cfg None None None None)
   \<and> (\<forall>s m img. enabled (quality cfg) \<and> ecostress_companion_masks (quality cfg)
        \<and> bounds_intersects src geom \<noteq> Inr False \<and> mask_crop src geom = Inr img
        \<and> mask_crop s geom = Inl (OtherError m) \<longrightarrow>
       snd (zonal_stats_for_geom src geom cfg (Some s) water_src qc_src lst_err_src)
         = Inl (OtherError m))"
proof (intro conjI allI impI)
  fix s :: "('a, int) DatasetReader" and m
  assume a: "mask_crop s geom = Inl (ValueError m)"
  show "snd (zonal_stats_for_geom src geom cfg (Some s) water_src qc_src lst_err_src)
         = snd (zonal_stats_for_geom src geom cfg None water_src qc_src lst_err_src)"
    by (rule zonal_stats_snd_cong) (rule quality_mask_cloud_ValueError [OF a])
  show "snd (zonal_stats_for_geom src geom cfg cloud_src (Some s) qc_src lst_err_src)
         = snd (zonal_stats_for_geom src geom cfg cloud_src None qc_src lst_err_src)"
    by (rule zonal_stats_snd_cong) (rule quality_mask_water_ValueError [OF a])
  show "snd (zonal_stats_for_geom src geom cfg cloud_src water_src (Some s) lst_err_src)
         = snd (zonal_stats_for_geom src geom cfg cloud_src water_src None lst_err_src)"
    by (rule zonal_stats_snd_cong) (rule quality_mask_qc_ValueError [OF a])
next
  fix s :: "('a, pyfloat) DatasetReader" and m
  assume a: "mask_crop s geom = Inl (ValueError m)"
  show "snd (zonal_stats_for_geom src geom cfg cloud_src water_src qc_src (Some s))
         = snd (zonal_stats_for_geom src geom cfg cloud_src water_src qc_src None)"
    by (rule zonal_stats_snd_cong) (rule quality_mask_err_ValueError [OF a])
next
  assume a: "enabled (quality cfg) \<and> ecostress_companion_masks (quality cfg)
        \<and> endswith name ''_LST.tif''
        \<and> cc \<noteq> Unopenable \<and> cw \<noteq> Unopenable \<and> cq \<noteq> Unopenable \<and> ce \<noteq> Unopenable"
  then show o: "open_companions cfg name cc cw cq ce = (opened cc, opened cw, opened cq, opened ce)"
    by (intro open_companions_all_open) simp_all
  show "main_zonal_record cfg name src geom cc cw cq ce
           = zonal_stats_for_geom src geom cfg (opened cc) (opened cw) (opened cq) (opened ce)"
    by (simp add: main_zonal_record_def o)
next
  assume a: "cc = Unopenable \<or> cw = Unopenable \<or> cq = Unopenable \<or> ce = Unopenable"
  then show o: "open_companions cfg name cc cw cq ce = (None, None, None, None)"
    by (rule open_companions_one_fails)
  show "main_zonal_record cfg name src geom cc cw cq ce
           = zonal_stats_for_geom src geom cfg None None None None"
    by (simp add: main_zonal_record_def o)
next
  fix s :: "('a, int) DatasetReader" and m img
  assume "enabled (quality cfg) \<and> ecostress_companion_masks (quality cfg)
        \<and> bounds_intersects src geom \<noteq> Inr False \<and> mask_crop src geom = Inr img
        \<and> mask_crop s geom = Inl (OtherError m)"
  then show "snd (zonal_stats_for_geom src geom cfg (Some s) water_src qc_src lst_err_src)
         = Inl (OtherError m)"
    by (intro cloud_crop_error_fatal) simp_all
qed

theorem companion_failure_effect_witness:
  "mask_crop water_tile 0 = Inl (ValueError ''Input shapes do not overlap raster.'')
   \<and> snd (zonal_stats_for_geom tile_src 0 masked_config (Some cloud_tile) (Some water_tile) None None)
       = Inr [(''mean'', Finite 1), (''count'', Finite 1)]
   \<and> main_zonal_record masked_config ''t_LST.tif'' tile_src 0
         (Openable cloud_tile) Absent Absent Absent
       = zonal_stats_for_geom tile_src 0 masked_config (Some cloud_tile) None None None
   \<and> main_zonal_record masked_config ''t_LST.tif'' tile_src 0
         (Openable cloud_tile) Absent Unopenable Absent
       = zonal_stats_for_geom tile_src 0 masked_config None None None None
   \<and> mask_crop corrupt_cloud 0 = Inl (OtherError ''RasterioIOError'')
   \<and> snd (zonal_stats_for_geom tile_src 0 masked_config (Some corrupt_cloud) None None None)
       = Inl (OtherError ''RasterioIOError'')"
proof -
  note th = companion_failure_effect [where geom = 0 and src = tile_src and cfg = masked_config
      and cloud_src = "Some cloud_tile" and water_src = None and qc_src = None
      and lst_err_src = None and name = "''t_LST.tif''"]
  have w: "mask_crop water_tile 0 = Inl (ValueError ''Input shapes do not overlap raster.'')"
    by (simp add: water_tile_def)
  have base: "snd (zonal_stats_for_geom tile_src 0 masked_config (Some cloud_tile) None None None)
       = Inr [(''mean'', Finite 1), (''count'', Finite 1)]"
    by (simp add: zonal_eval)
  have act: "enabled (quality masked_config) \<and> ecostress_companion_masks (quality masked_config)
      \<and> endswith ''t_LST.tif'' ''_LST.tif''"
    by (simp add: masked_config_def endswith_def)
  from th [where cc = "Openable cloud_tile" and cw = Absent and cq = Absent and ce = Absent] act
  have p1: "main_zonal_record masked_config ''t_LST.tif'' tile_src 0
         (Openable cloud_tile) Absent Absent Absent
       = zonal_stats_for_geom tile_src 0 masked_config (Some cloud_tile) None None None"
    by (simp add: opened_def)
  from th [where cc = "Openable cloud_tile" and cw = Absent and cq = Unopenable and ce = Absent]
  have p2: "main_zonal_record masked_config ''t_LST.tif'' tile_src 0
         (Openable cloud_tile) Absent Unopenable Absent
       = zonal_stats_for_geom tile_src 0 masked_config None None None None"
    by simp
  from th [where cc = Absent and cw = Absent and cq = Absent and ce = Absent] w base
  have p3: "snd (zonal_stats_for_geom tile_src 0 masked_config (Some cloud_tile) (Some water_tile) None None)
       = Inr [(''mean'', Finite 1), (''count'', Finite 1)]"
    by metis
  have c: "mask_crop corrupt_cloud 0 = Inl (OtherError ''RasterioIOError'')"
    by (simp add: corrupt_cloud_def)
  have t: "bounds_intersects tile_src 0 \<noteq> Inr False"
    "mask_crop tile_src 0 = Inr [Finite 1, Finite 3, Finite (- 9999)]"
    by (simp_all add: tile_src_def)
  from th [where cc = Absent and cw = Absent and cq = Absent and ce = Absent] act c t
  have p4: "snd (zonal_stats_for_geom tile_src 0 masked_config (Some corrupt_cloud) None None None)
       = Inl (OtherError ''RasterioIOError'')"
    by blast
  from w p1 p2 p3 c p4 show ?thesis by simp
qed

section \<open>Composite risk score (02_compute_anomaly_and_risk.py)\<close>

text \<open>
  \<^verbatim>\<open>Series.clip(lower, upper)\<close> leaves \<open>NaN\<close> in place; a value below \<open>lower\<close>
  becomes \<open>lower\<close>, then a value above \<open>upper\<close> becomes \<open>upper\<close>.
  \<^verbatim>\<open>fillna(v)\<close> replaces \<open>NaN\<close> by \<open>v\<close>. \<open>risk_score\<close> is the row-wise
  computation of \<open>main\<close>; \<open>hot_nights_14\<close> is an integer column there.
\<close>

fun pd_clip :: "real \<Rightarrow> real \<Rightarrow> pyfloat \<Rightarrow> pyfloat" where
  "pd_clip lower upper NaN = NaN"
| "pd_clip lower upper x =
     (let y = (if fle (Finite lower) x then x else Finite lower)
      in if fle x (Finite upper) then y else Finite upper)"

definition fillna :: "real \<Rightarrow> pyfloat \<Rightarrow> pyfloat" where
  "fillna v x = (if isnan x then Finite v else x)"

definition risk_score :: "pyfloat \<Rightarrow> int \<Rightarrow> pyfloat \<Rightarrow> pyfloat" where
  "risk_score z hot_nights_14 trend_c_per_year =
     (let z_clip = fillna 0 (pd_clip (- 3) 6 z);
          freq_score = fmul (fdiv (Finite (real_of_int hot_nights_14)) (Finite 14)) (Finite 25);
          trend_score = fmul (fillna 0 (pd_clip 0 5 trend_c_per_year)) (Finite 5)
      in pd_clip 0 100 (fadd (fadd (fmul z_clip (Finite 10)) freq_score) trend_score))"

text \<open>
  The formula of the specification: \<open>clip\<close> on the reals, and the clipped value of an
  input with \<open>NaN\<close> counted as 0.
\<close>

definition spec_clip :: "real \<Rightarrow> real \<Rightarrow> real \<Rightarrow> real" where
  "spec_clip lower upper x = max lower (min upper x)"

definition spec_term :: "real \<Rightarrow> real \<Rightarrow> pyfloat \<Rightarrow> real" where
  "spec_term lower upper x =
     (case x of
        NaN \<Rightarrow> 0
      | Finite r \<Rightarrow> spec_clip lower upper r
      | PInf \<Rightarrow> upper
      | NInf \<Rightarrow> lower)"

lemma fillna_pd_clip:
  assumes "lower \<le> upper"
  shows "fillna 0 (pd_clip lower upper x) = Finite (spec_term lower upper x)"
  using assms by (cases x) (auto simp: fillna_def spec_term_def spec_clip_def Let_def)

text \<open>
  Claim C3. For every \<open>z\<close> and trend (finite, infinite or \<open>NaN\<close>) and every integer
  \<open>hot_nights_14\<close>, the risk score is a number in \<open>[0, 100]\<close>, and it is
  \<open>clip(z, -3, 6) * 10 + hot_nights_14 / 14 * 25 + clip(trend, 0, 5) * 5\<close> clipped to
  \<open>[0, 100]\<close>, where a \<open>NaN\<close> input contributes 0.
\<close>

theorem risk_score_formula_bounded:
  "\<exists>r. risk_score z h t = Finite r \<and> 0 \<le> r \<and> r \<le> 100
     \<and> r = spec_clip 0 100
           (spec_term (- 3) 6 z * 10 + real_of_int h / 14 * 25 + spec_term 0 5 t * 5)"
proof -
  have "risk_score z h t = pd_clip 0 100 (Finite
      (spec_term (- 3) 6 z * 10 + real_of_int h / 14 * 25 + spec_term 0 5 t * 5))"
    by (simp add: risk_score_def fillna_pd_clip Let_def)
  then show ?thesis
    by (simp add: spec_clip_def Let_def)
qed

theorem risk_score_formula_bounded_witness:
  "risk_score NaN 7 (Finite 2) = Finite (45 / 2)
   \<and> risk_score (Finite 9) 14 NaN = Finite 85
   \<and> risk_score (Finite (- 9)) 0 NaN = Finite 0
   \<and> risk_score (Finite 9) 14 (Finite 7) = Finite 100"
proof -
  have v: "spec_clip 0 100 (spec_term (- 3) 6 NaN * 10 + real_of_int 7 / 14 * 25
        + spec_term 0 5 (Finite 2) * 5) = 45 / 2"
    "spec_clip 0 100 (spec_term (- 3) 6 (Finite 9) * 10 + real_of_int 14 / 14 * 25
        + spec_term 0 5 NaN * 5) = 85"
    "spec_clip 0 100 (spec_term (- 3) 6 (Finite (- 9)) * 10 + real_of_int 0 / 14 * 25
        + spec_term 0 5 NaN * 5) = 0"
    "spec_clip 0 100 (spec_term (- 3) 6 (Finite 9) * 10 + real_of_int 14 / 14 * 25
        + spec_term 0 5 (Finite 7) * 5) = 100"
    by (simp_all add: spec_term_def spec_clip_def)
  from risk_score_formula_bounded [of NaN 7 "Finite 2"]
    risk_score_formula_bounded [of "Finite 9" 14 NaN]
    risk_score_formula_bounded [of "Finite (- 9)" 0 NaN]
    risk_score_formula_bounded [of "Finite 9" 14 "Finite 7"]
  show ?thesis unfolding v by blast
qed

section \<open>Seasonal baseline (02_compute_anomaly_and_risk.py)\<close>

text \<open>
  The pandas reductions of \<^verbatim>\<open>groupby(...).agg\<close> skip \<open>NaN\<close>: \<open>count\<close> counts the other
  values, \<open>mean\<close> averages them, and \<open>std\<close> is pandas' default, the sample standard
  deviation with divisor \<open>n - 1\<close>, which is \<open>NaN\<close> for fewer than two values.
\<close>

definition dropna :: "pyfloat list \<Rightarrow> pyfloat list" where
  "dropna col = filter (\<lambda>x. \<not> isnan x) col"


definition pd_mean :: "pyfloat list \<Rightarrow> pyfloat" where
  "pd_mean col = (let v = dropna col in if v = [] then NaN else np_mean v)"

definition sum_sq_dev :: "pyfloat list \<Rightarrow> pyfloat" where
  "sum_sq_dev v = (let m = np_mean v in fsum (map (\<lambda>x. fmul (fsub x m) (fsub x m)) v))"












subsection \<open>Three small time series\<close>







section \<open>Baseline fields of a group\<close>











section \<open>Usability threshold (30_collapse_and_filter_observations.py)\<close>


















section \<open>Covariate matching (34_match_controls_by_covariates.py)\<close>

record MatchResult =
  data_center_aoi_id :: string
  control_aoi_id :: string
  buffer_m :: pyfloat
  match_rank :: nat
  distance :: pyfloat

text \<open>
  A row of \<open>df\<close>, the AOI table merged with the covariates: the AOI, the flag, the
  buffer, and the feature columns after \<^verbatim>\<open>pd.to_numeric(errors="coerce")\<close>.
\<close>

record aoi_features =
  df_aoi_id :: string
  is_data_center :: int
  df_buffer_m :: pyfloat
  feats :: "pyfloat list"

subsection \<open>Standardised distances\<close>

text \<open>
  \<^verbatim>\<open>StandardScaler\<close> is fitted on the controls stacked over the data centers: per
  column the mean and the population variance of the values that are not \<open>NaN\<close>, the
  scale being the root of the variance, or 1 where that is 0. sklearn refuses an
  infinite value and a table without columns with \<open>ValueError\<close>. \<open>dist_m i j\<close> is the
  Euclidean distance between data center \<open>i\<close> and control \<open>j\<close> after scaling. Every
  row of \<open>df\<close> holds one value per feature column.
\<close>

fun isinf :: "pyfloat \<Rightarrow> bool" where
  "isinf PInf = True"
| "isinf NInf = True"
| "isinf x = False"

definition ncols :: "'a list list \<Rightarrow> nat" where
  "ncols X = (case X of [] \<Rightarrow> 0 | row # rest \<Rightarrow> length row)"

definition columns :: "pyfloat list list \<Rightarrow> pyfloat list list" where
  "columns X = map (\<lambda>c. map (\<lambda>row. row ! c) X) [0..<ncols X]"

definition nan_var :: "pyfloat list \<Rightarrow> pyfloat" where
  "nan_var col =
     (let v = dropna col in
      if v = [] then NaN else fdiv (sum_sq_dev v) (Finite (real (length v))))"

definition scaler_fit :: "pyfloat list list \<Rightarrow> (pyfloat \<times> pyfloat) list" where
  "scaler_fit X =
     map (\<lambda>col. (pd_mean col,
                 (let s = fsqrt (nan_var col) in if s = Finite 0 then Finite 1 else s)))
       (columns X)"

definition scaler_transform :: "(pyfloat \<times> pyfloat) list \<Rightarrow> pyfloat list list \<Rightarrow> pyfloat list list" where
  "scaler_transform params X =
     map (\<lambda>row. map2 (\<lambda>x ms. fdiv (fsub x (fst ms)) (snd ms)) row params) X"

definition euclidean :: "pyfloat list \<Rightarrow> pyfloat list \<Rightarrow> pyfloat" where
  "euclidean a b = fsqrt (fsum (map2 (\<lambda>x y. fmul (fsub x y) (fsub x y)) a b))"

definition standardized_distance ::
  "pyfloat list list \<Rightarrow> pyfloat list list \<Rightarrow> py_exn + (nat \<Rightarrow> nat \<Rightarrow> pyfloat)" where
  "standardized_distance X_ctrl X_dc =
     (let X_all = X_ctrl @ X_dc in
      if ncols X_all = 0 then Inl (ValueError ''Found array with 0 feature(s)'')
      else if list_ex (list_ex isinf) X_all then Inl (ValueError ''Input X contains infinity'')
      else
        let scaler = scaler_fit X_all;
            X_ctrl_s = scaler_transform scaler X_ctrl;
            X_dc_s = scaler_transform scaler X_dc
        in Inr (\<lambda>i j. euclidean (X_dc_s ! i) (X_ctrl_s ! j)))"

subsection \<open>The greedy loop\<close>

text \<open>
  \<^verbatim>\<open>np.argsort\<close> of a row of distances: the control indices by ascending distance,
  \<open>NaN\<close> last (equal distances are kept in index order here).
\<close>

definition argsort :: "(nat \<Rightarrow> pyfloat) \<Rightarrow> nat \<Rightarrow> nat list" where
  "argsort drow n = sort_key (\<lambda>j. fkey (drow j)) [0..<n]"

text \<open>
  The loop over the candidates of one data center. It returns the records it appends to
  \<open>results\<close>, in order, and the set \<open>used_controls\<close> after it. A candidate in
  \<open>used_controls\<close> is skipped when \<open>no_reuse\<close> is set; the loop stops after the append
  that brings \<open>picked\<close> to \<open>k\<close> or beyond.
\<close>

fun pick_loop ::
  "bool \<Rightarrow> int \<Rightarrow> string \<Rightarrow> pyfloat \<Rightarrow> (nat \<Rightarrow> pyfloat) \<Rightarrow> string list \<Rightarrow> nat list
   \<Rightarrow> nat \<Rightarrow> nat \<Rightarrow> string set \<Rightarrow> MatchResult list \<times> string set" where
  "pick_loop no_reuse k dc_id buf drow ctrl_ids [] picked rank used_controls = ([], used_controls)"
| "pick_loop no_reuse k dc_id buf drow ctrl_ids (j # order) picked rank used_controls =
     (let c_id = ctrl_ids ! j in
      if no_reuse \<and> c_id \<in> used_controls
      then pick_loop no_reuse k dc_id buf drow ctrl_ids order picked rank used_controls
      else
        let r = \<lparr> data_center_aoi_id = dc_id, control_aoi_id = c_id, buffer_m = buf,
                  match_rank = rank, distance = drow j \<rparr>;
            used' = insert c_id used_controls
        in if k \<le> int (picked + 1) then ([r], used')
           else (case pick_loop no_reuse k dc_id buf drow ctrl_ids order (picked + 1) (rank + 1) used'
                 of (rs, u) \<Rightarrow> (r # rs, u)))"

text \<open>The loop over the data centers of one buffer group, \<open>i\<close> counting the rows.\<close>

fun match_dcs ::
  "bool \<Rightarrow> int \<Rightarrow> pyfloat \<Rightarrow> (nat \<Rightarrow> nat \<Rightarrow> pyfloat) \<Rightarrow> string list \<Rightarrow> nat
   \<Rightarrow> aoi_features list \<Rightarrow> string set \<Rightarrow> MatchResult list \<times> string set" where
  "match_dcs no_reuse k buf dist_m ctrl_ids i [] used_controls = ([], used_controls)"
| "match_dcs no_reuse k buf dist_m ctrl_ids i (dc_row # dcs) used_controls =
     (case pick_loop no_reuse k (df_aoi_id dc_row) buf (dist_m i) ctrl_ids
             (argsort (dist_m i) (length ctrl_ids)) 0 0 used_controls
      of (new, used') \<Rightarrow>
        (case match_dcs no_reuse k buf dist_m ctrl_ids (Suc i) dcs used'
         of (rest, used'') \<Rightarrow> (new @ rest, used'')))"

text \<open>
  One buffer group: skipped when it has no data center or no control; the distance
  computation may raise, which ends \<open>main\<close>.
\<close>

definition match_group ::
  "bool \<Rightarrow> int \<Rightarrow> pyfloat \<times> aoi_features list \<Rightarrow> string set
   \<Rightarrow> py_exn + MatchResult list \<times> string set" where
  "match_group no_reuse k bg used_controls =
     (case bg of (buffer, g) \<Rightarrow>
        let dcs = filter (\<lambda>r. is_data_center r = 1) g;
            ctrls = filter (\<lambda>r. is_data_center r = 0) g
        in if dcs = [] \<or> ctrls = [] then Inr ([], used_controls)
           else
             (case standardized_distance (map feats ctrls) (map feats dcs) of
                Inl e \<Rightarrow> Inl e
              | Inr dist_m \<Rightarrow>
                  Inr (match_dcs no_reuse k buffer dist_m (map df_aoi_id ctrls) 0 dcs used_controls)))"

fun match_groups ::
  "bool \<Rightarrow> int \<Rightarrow> (pyfloat \<times> aoi_features list) list \<Rightarrow> string set
   \<Rightarrow> py_exn + MatchResult list \<times> string set" where
  "match_groups no_reuse k [] used_controls = Inr ([], used_controls)"
| "match_groups no_reuse k (bg # bgs) used_controls =
     (case match_group no_reuse k bg used_controls of
        Inl e \<Rightarrow> Inl e
      | Inr (new, used') \<Rightarrow>
          (case match_groups no_reuse k bgs used' of
             Inl e \<Rightarrow> Inl e
           | Inr (rest, used'') \<Rightarrow> Inr (new @ rest, used'')))"

text \<open>
  \<^verbatim>\<open>df.groupby("buffer_m")\<close>: the buffers in ascending order without \<open>NaN\<close>, each with
  its rows. \<open>match_controls\<close> is the loop of \<open>main\<close> from an empty \<open>results\<close> and an
  empty \<open>used_controls\<close>.
\<close>

definition groupby_buffer_m :: "aoi_features list \<Rightarrow> (pyfloat \<times> aoi_features list) list" where
  "groupby_buffer_m df =
     map (\<lambda>b. (b, filter (\<lambda>r. df_buffer_m r = b) df))
       (remdups (np_sort (dropna (map df_buffer_m df))))"

definition match_controls :: "bool \<Rightarrow> int \<Rightarrow> aoi_features list \<Rightarrow> py_exn + MatchResult list" where
  "match_controls no_reuse k df =
     (case match_groups no_reuse k (groupby_buffer_m df) {} of
        Inl e \<Rightarrow> Inl e
      | Inr (results, used_controls) \<Rightarrow> Inr results)"

subsection \<open>A data center between two identical controls\<close>

definition twin_controls :: "aoi_features list" where
  "twin_controls =
     [\<lparr> df_aoi_id = ''dc_1'', is_data_center = 1, df_buffer_m = Finite 500, feats = [Finite 3] \<rparr>,
      \<lparr> df_aoi_id = ''ctrl_1'', is_data_center = 0, df_buffer_m = Finite 500, feats = [Finite 0] \<rparr>,
      \<lparr> df_aoi_id = ''ctrl_2'', is_data_center = 0, df_buffer_m = Finite 500, feats = [Finite 0] \<rparr>]"

section \<open>Properties of the greedy loop\<close>

lemma pick_loop_used:
  "snd (pick_loop nr k t buf drow ids order picked rank used)
     = used \<union> set (map control_aoi_id (fst (pick_loop nr k t buf drow ids order picked rank used)))"
  by (induction order arbitrary: picked rank used)
     (auto simp: Let_def case_prod_beta)

lemma pick_loop_no_reuse:
  "distinct (map control_aoi_id (fst (pick_loop True k t buf drow ids order picked rank used)))
   \<and> set (map control_aoi_id (fst (pick_loop True k t buf drow ids order picked rank used)))
       \<inter> used = {}"
proof (induction order arbitrary: picked rank used)
  case Nil
  show ?case by simp
next
  case (Cons j order)
  show ?case
  proof (cases "ids ! j \<in> used")
    case True
    with Cons show ?thesis by simp
  next
    case False
    from Cons [of "picked + 1" "rank + 1" "insert (ids ! j) used"] False
    show ?thesis
      by (auto simp: Let_def case_prod_beta)
  qed
qed

lemma pick_loop_ranks:
  "map match_rank (fst (pick_loop nr k t buf drow ids order picked rank used))
     = [rank ..< rank + length (fst (pick_loop nr k t buf drow ids order picked rank used))]"
proof (induction order arbitrary: picked rank used)
  case Nil
  show ?case by simp
next
  case (Cons j order)
  from Cons [of "picked + 1" "rank + 1" "insert (ids ! j) used"] Cons [of picked rank used]
  show ?case
    by (auto simp: Let_def case_prod_beta upt_conv_Cons)
qed

lemma pick_loop_key:
  "r \<in> set (fst (pick_loop nr k t buf drow ids order picked rank used))
   \<Longrightarrow> data_center_aoi_id r = t \<and> buffer_m r = buf"
  by (induction order arbitrary: picked rank used)
     (auto simp: Let_def case_prod_beta split: if_splits)

lemma pick_loop_count:
  "int picked < k \<Longrightarrow>
   int (picked + length (fst (pick_loop nr k t buf drow ids order picked rank used))) \<le> k"
proof (induction order arbitrary: picked rank used)
  case Nil
  then show ?case by simp
next
  case (Cons j order)
  from Cons.prems Cons.IH [of picked rank used]
    Cons.IH [of "picked + 1" "rank + 1" "insert (ids ! j) used"]
  show ?case
    by (auto simp: Let_def case_prod_beta)
qed

lemma pick_loop_distances:
  "r \<in> set (fst (pick_loop nr k t buf drow ids order picked rank used))
   \<Longrightarrow> fkey (distance r) \<in> (\<lambda>j. fkey (drow j)) ` set order"
  by (induction order arbitrary: picked rank used)
     (auto simp: Let_def case_prod_beta split: if_splits)

lemma pick_loop_sorted:
  "sorted (map (\<lambda>j. fkey (drow j)) order) \<Longrightarrow>
   sorted (map (\<lambda>r. fkey (distance r)) (fst (pick_loop nr k t buf drow ids order picked rank used)))"
proof (induction order arbitrary: picked rank used)
  case Nil
  show ?case by simp
next
  case (Cons j order)
  then have s: "sorted (map (\<lambda>j. fkey (drow j)) order)"
    and le: "\<forall>i\<in>set order. fkey (drow j) \<le> fkey (drow i)"
    by auto
  have later: "fkey (drow j) \<le> fkey (distance r)"
    if "r \<in> set (fst (pick_loop nr k t buf drow ids order p q u))" for r p q u
    using pick_loop_distances [OF that] le by auto
  from Cons.IH [OF s, of picked rank used]
    Cons.IH [OF s, of "picked + 1" "rank + 1" "insert (ids ! j) used"]
    later [of _ "picked + 1" "rank + 1" "insert (ids ! j) used"]
  show ?case
    by (auto simp: Let_def case_prod_beta)
qed

lemma sorted_argsort: "sorted (map (\<lambda>j. fkey (drow j)) (argsort drow n))"
  by (simp add: argsort_def)

subsection \<open>The used controls through the loops\<close>

lemma match_dcs_used:
  "snd (match_dcs nr k buf dm ids i dcs used)
     = used \<union> set (map control_aoi_id (fst (match_dcs nr k buf dm ids i dcs used)))"
proof (induction dcs arbitrary: i used)
  case Nil
  show ?case by simp
next
  case (Cons dc dcs)
  show ?case
    by (simp add: case_prod_beta Cons.IH Un_assoc
        pick_loop_used [of nr k "df_aoi_id dc" buf "dm i" ids "argsort (dm i) (length ids)" 0 0 used])
qed

lemma match_dcs_no_reuse:
  "distinct (map control_aoi_id (fst (match_dcs True k buf dm ids i dcs used)))
   \<and> set (map control_aoi_id (fst (match_dcs True k buf dm ids i dcs used))) \<inter> used = {}"
proof (induction dcs arbitrary: i used)
  case Nil
  show ?case by simp
next
  case (Cons dc dcs)
  let ?p = "pick_loop True k (df_aoi_id dc) buf (dm i) ids (argsort (dm i) (length ids)) 0 0 used"
  note p = pick_loop_no_reuse [of k "df_aoi_id dc" buf "dm i" ids "argsort (dm i) (length ids)" 0 0 used]
  note u = pick_loop_used [of True k "df_aoi_id dc" buf "dm i" ids "argsort (dm i) (length ids)" 0 0 used]
  note r = Cons.IH [of "Suc i" "snd ?p"]
  from p r show ?case
    unfolding u by (auto simp: case_prod_beta u)
qed

lemma match_group_Inr:
  assumes "match_group nr k (buf, g) used = Inr (new, used')"
  shows "(new = [] \<and> used' = used)
       \<or> (\<exists>dm ids. new = fst (match_dcs nr k buf dm ids 0 (filter (\<lambda>r. is_data_center r = 1) g) used)
               \<and> used' = snd (match_dcs nr k buf dm ids 0 (filter (\<lambda>r. is_data_center r = 1) g) used))"
proof (cases "filter (\<lambda>r. is_data_center r = 1) g = [] \<or> filter (\<lambda>r. is_data_center r = 0) g = []")
  case True
  with assms show ?thesis
    by (auto simp: match_group_def Let_def)
next
  case False
  with assms obtain dm where
    "match_dcs nr k buf dm (map df_aoi_id (filter (\<lambda>r. is_data_center r = 0) g)) 0
       (filter (\<lambda>r. is_data_center r = 1) g) used = (new, used')"
    by (auto simp: match_group_def Let_def split: sum.splits)
  then show ?thesis
    by (metis fst_conv snd_conv)
qed

lemma match_group_used:
  assumes "match_group nr k bg used = Inr (new, used')"
  shows "used' = used \<union> set (map control_aoi_id new)"
proof -
  obtain buf g where bg: "bg = (buf, g)" by (cases bg)
  from match_group_Inr [OF assms [unfolded bg]] show ?thesis
    using match_dcs_used by auto
qed

lemma match_group_no_reuse:
  assumes "match_group True k bg used = Inr (new, used')"
  shows "distinct (map control_aoi_id new) \<and> set (map control_aoi_id new) \<inter> used = {}"
proof -
  obtain buf g where bg: "bg = (buf, g)" by (cases bg)
  from match_group_Inr [OF assms [unfolded bg]] show ?thesis
  proof (elim disjE exE conjE)
    assume "new = []"
    then show ?thesis by simp
  next
    fix dm ids
    assume n: "new = fst (match_dcs True k buf dm ids 0 (filter (\<lambda>r. is_data_center r = 1) g) used)"
    show ?thesis unfolding n by (rule match_dcs_no_reuse)
  qed
qed

lemma match_groups_Cons_Inr:
  assumes "match_groups nr k (bg # bgs) used = Inr (res, used')"
  shows "\<exists>new u1 rest. match_group nr k bg used = Inr (new, u1)
         \<and> match_groups nr k bgs u1 = Inr (rest, used') \<and> res = new @ rest"
  using assms by (auto split: sum.splits prod.splits)


lemma match_groups_no_reuse:
  "match_groups True k bgs used = Inr (res, used')
   \<Longrightarrow> distinct (map control_aoi_id res) \<and> set (map control_aoi_id res) \<inter> used = {}"
proof (induction bgs arbitrary: used res used')
  case Nil
  then show ?case by simp
next
  case (Cons bg bgs)
  from match_groups_Cons_Inr [OF Cons.prems] obtain new u1 rest where
    g: "match_group True k bg used = Inr (new, u1)"
    and r: "match_groups True k bgs u1 = Inr (rest, used')"
    and res: "res = new @ rest"
    by blast
  from match_group_used [OF g] match_group_no_reuse [OF g] Cons.IH [OF r] res show ?case
    by auto
qed


subsection \<open>Blocks of records\<close>

text \<open>
  The records of one data center form a block: ranks \<open>0, 1, ...\<close>, at most \<open>k\<close> of
  them, in the order of \<^verbatim>\<open>np.argsort\<close> on their distances. \<open>match_key\<close> is the pair of
  treatment AOI and buffer a record belongs to.
\<close>

definition rank_block :: "int \<Rightarrow> MatchResult list \<Rightarrow> bool" where
  "rank_block k b =
     (map match_rank b = [0..<length b] \<and> int (length b) \<le> k
      \<and> sorted (map (\<lambda>r. fkey (distance r)) b))"

definition match_key :: "MatchResult \<Rightarrow> string \<times> pyfloat" where
  "match_key r = (data_center_aoi_id r, buffer_m r)"

definition keyed_blocks :: "int \<Rightarrow> (string \<times> pyfloat) list \<Rightarrow> MatchResult list list \<Rightarrow> bool" where
  "keyed_blocks k keys bs =
     list_all2 (\<lambda>key b. rank_block k b \<and> list_all (\<lambda>r. match_key r = key) b) keys bs"

definition dc_keys :: "(pyfloat \<times> aoi_features list) list \<Rightarrow> (string \<times> pyfloat) list" where
  "dc_keys bgs =
     concat (map (\<lambda>bg. map (\<lambda>dc. (df_aoi_id dc, fst bg))
                      (filter (\<lambda>r. is_data_center r = 1) (snd bg))) bgs)"

lemma rank_block_Nil: "0 \<le> k \<Longrightarrow> rank_block k []"
  by (simp add: rank_block_def)

lemma pick_loop_block:
  assumes "1 \<le> k"
  shows "rank_block k (fst (pick_loop nr k t buf drow ids (argsort drow n) 0 0 used))"
proof -
  let ?b = "fst (pick_loop nr k t buf drow ids (argsort drow n) 0 0 used)"
  have "map match_rank ?b = [0..<length ?b]"
    using pick_loop_ranks [of nr k t buf drow ids "argsort drow n" 0 0 used] by simp
  moreover have "int (length ?b) \<le> k"
    using pick_loop_count [of 0 k nr t buf drow ids "argsort drow n" 0 used] assms by simp
  moreover have "sorted (map (\<lambda>r. fkey (distance r)) ?b)"
    by (rule pick_loop_sorted) (rule sorted_argsort)
  ultimately show ?thesis by (simp add: rank_block_def)
qed

lemma pick_loop_match_key:
  "list_all (\<lambda>r. match_key r = (t, buf)) (fst (pick_loop nr k t buf drow ids order picked rank used))"
  using pick_loop_key [of _ nr k t buf drow ids order picked rank used]
  by (auto simp: list_all_iff match_key_def)

lemma match_dcs_blocks:
  assumes "1 \<le> k"
  shows "\<exists>bs. fst (match_dcs nr k buf dm ids i dcs used) = concat bs
            \<and> keyed_blocks k (map (\<lambda>dc. (df_aoi_id dc, buf)) dcs) bs"
proof (induction dcs arbitrary: i used)
  case Nil
  show ?case by (simp add: keyed_blocks_def)
next
  case (Cons dc dcs)
  let ?p = "pick_loop nr k (df_aoi_id dc) buf (dm i) ids (argsort (dm i) (length ids)) 0 0 used"
  from Cons [of "Suc i" "snd ?p"] obtain bs where
    bs: "fst (match_dcs nr k buf dm ids (Suc i) dcs (snd ?p)) = concat bs"
      "keyed_blocks k (map (\<lambda>dc. (df_aoi_id dc, buf)) dcs) bs"
    by blast
  have "fst (match_dcs nr k buf dm ids i (dc # dcs) used) = concat (fst ?p # bs)"
    by (simp add: case_prod_beta bs(1))
  moreover have "keyed_blocks k (map (\<lambda>dc. (df_aoi_id dc, buf)) (dc # dcs)) (fst ?p # bs)"
    using bs(2) pick_loop_block [OF assms] pick_loop_match_key
    by (simp add: keyed_blocks_def)
  ultimately show ?case by blast
qed

lemma keyed_blocks_empty:
  assumes "0 \<le> k"
  shows "keyed_blocks k keys (map (\<lambda>key. []) keys)"
  using assms by (induction keys) (simp_all add: keyed_blocks_def rank_block_def)

lemma match_group_blocks:
  assumes "match_group nr k (buf, g) used = Inr (new, used')" and "1 \<le> k"
  shows "\<exists>bs. new = concat bs \<and> keyed_blocks k (dc_keys [(buf, g)]) bs"
proof -
  let ?keys = "map (\<lambda>dc. (df_aoi_id dc, buf)) (filter (\<lambda>r. is_data_center r = 1) g)"
  have k: "dc_keys [(buf, g)] = ?keys"
    by (simp add: dc_keys_def)
  from match_group_Inr [OF assms(1)] show ?thesis
  proof (elim disjE exE conjE)
    assume "new = []"
    then have "new = concat (map (\<lambda>key. []) ?keys)"
      by simp
    moreover from assms(2) have "keyed_blocks k ?keys (map (\<lambda>key. []) ?keys)"
      by (intro keyed_blocks_empty) simp
    ultimately show ?thesis unfolding k by blast
  next
    fix dm ids
    assume "new = fst (match_dcs nr k buf dm ids 0 (filter (\<lambda>r. is_data_center r = 1) g) used)"
    with match_dcs_blocks [OF assms(2), of nr buf dm ids 0 "filter (\<lambda>r. is_data_center r = 1) g" used]
    show ?thesis unfolding k by simp
  qed
qed

lemma dc_keys_Cons: "dc_keys (bg # bgs) = dc_keys [bg] @ dc_keys bgs"
  by (simp add: dc_keys_def)

lemma keyed_blocks_append:
  assumes "keyed_blocks k keys1 bs1" and "keyed_blocks k keys2 bs2"
  shows "keyed_blocks k (keys1 @ keys2) (bs1 @ bs2)"
  using assms by (simp add: keyed_blocks_def list_all2_appendI)

lemma match_groups_blocks:
  assumes "1 \<le> k"
  shows "match_groups nr k bgs used = Inr (res, used')
    \<Longrightarrow> \<exists>bs. res = concat bs \<and> keyed_blocks k (dc_keys bgs) bs"
proof (induction bgs arbitrary: used res used')
  case Nil
  then show ?case by (simp add: keyed_blocks_def dc_keys_def)
next
  case (Cons bg bgs)
  obtain buf g where bg: "bg = (buf, g)" by (cases bg)
  from match_groups_Cons_Inr [OF Cons.prems] obtain new u1 rest where
    g: "match_group nr k (buf, g) used = Inr (new, u1)"
    and r: "match_groups nr k bgs u1 = Inr (rest, used')"
    and res: "res = new @ rest"
    unfolding bg by blast
  from match_group_blocks [OF g assms] obtain bs1 where
    b1: "new = concat bs1" "keyed_blocks k (dc_keys [(buf, g)]) bs1"
    by blast
  from Cons.IH [OF r] obtain bs2 where
    b2: "rest = concat bs2" "keyed_blocks k (dc_keys bgs) bs2"
    by blast
  have "res = concat (bs1 @ bs2)"
    by (simp add: res b1(1) b2(1))
  moreover have "keyed_blocks k (dc_keys (bg # bgs)) (bs1 @ bs2)"
    unfolding bg dc_keys_Cons [of "(buf, g)" bgs]
    by (rule keyed_blocks_append [OF b1(2) b2(2)])
  ultimately show ?case by blast
qed

lemma keyed_blocks_member_key:
  assumes "keyed_blocks k keys bs" and "r \<in> set (concat bs)"
  shows "match_key r \<in> set keys"
  using assms unfolding keyed_blocks_def
  by (induction keys bs rule: list_all2_induct) (auto simp: list_all_iff)

lemma filter_keyed_blocks:
  assumes "keyed_blocks k keys bs" and "distinct keys" and "0 \<le> k"
  shows "rank_block k (filter (\<lambda>r. match_key r = key) (concat bs))"
  using assms unfolding keyed_blocks_def
proof (induction keys bs rule: list_all2_induct)
  case Nil
  then show ?case by (simp add: rank_block_def)
next
  case (Cons key' keys b bs)
  then have rest: "keyed_blocks k keys bs"
    and blk: "rank_block k b" "list_all (\<lambda>r. match_key r = key') b"
    and fresh: "key' \<notin> set keys" and d: "distinct keys"
    by (simp_all add: keyed_blocks_def)
  show ?case
  proof (cases "key = key'")
    case True
    have "filter (\<lambda>r. match_key r = key) b = b"
      using blk(2) True by (auto simp: list_all_iff intro!: filter_True)
    moreover have "filter (\<lambda>r. match_key r = key) (concat bs) = []"
      using keyed_blocks_member_key [OF rest] fresh True
      by (auto simp: filter_empty_conv simp del: set_concat)
    ultimately show ?thesis
      using blk(1) by simp
  next
    case False
    have "filter (\<lambda>r. match_key r = key) b = []"
      using blk(2) False by (auto simp: list_all_iff filter_empty_conv)
    then show ?thesis
      using Cons.IH [OF d Cons.prems(2)] by simp
  qed
qed

lemma distinct_map_key:
  "distinct (map df_aoi_id xs) \<Longrightarrow> distinct (map (\<lambda>dc. (df_aoi_id dc, b)) xs)"
  by (induction xs) auto

lemma distinct_dc_keys_groups:
  assumes "distinct (map df_aoi_id (filter (\<lambda>r. is_data_center r = 1) df))"
    and "distinct bufs"
  shows "distinct (dc_keys (map (\<lambda>b. (b, filter (\<lambda>r. df_buffer_m r = b) df)) bufs))"
  using assms(2)
proof (induction bufs)
  case Nil
  show ?case by (simp add: dc_keys_def)
next
  case (Cons b bufs)
  let ?g = "\<lambda>b. filter (\<lambda>r. df_buffer_m r = b) df"
  have eq: "filter (\<lambda>r. is_data_center r = 1) (?g b)
      = filter (\<lambda>r. df_buffer_m r = b) (filter (\<lambda>r. is_data_center r = 1) df)"
    by (simp add: conj_commute)
  have "distinct (map df_aoi_id (filter (\<lambda>r. is_data_center r = 1) (?g b)))"
    unfolding eq by (rule distinct_map_filter) (rule assms(1))
  then have one: "distinct (dc_keys [(b, ?g b)])"
    by (simp add: dc_keys_def distinct_map_key)
  have other: "snd key \<in> set bufs" if "key \<in> set (dc_keys (map (\<lambda>b. (b, ?g b)) bufs))" for key
    using that by (auto simp: dc_keys_def)
  have this_one: "snd key = b" if "key \<in> set (dc_keys [(b, ?g b)])" for key
    using that by (auto simp: dc_keys_def)
  from Cons have "b \<notin> set bufs" and "distinct (dc_keys (map (\<lambda>b. (b, ?g b)) bufs))"
    by simp_all
  moreover have "dc_keys (map (\<lambda>b. (b, ?g b)) (b # bufs))
      = dc_keys [(b, ?g b)] @ dc_keys (map (\<lambda>b. (b, ?g b)) bufs)"
    by (simp add: dc_keys_def)
  ultimately show ?case
    using one other this_one by (auto simp: distinct_append)
qed

lemma distinct_dc_keys:
  assumes "distinct (map df_aoi_id (filter (\<lambda>r. is_data_center r = 1) df))"
  shows "distinct (dc_keys (groupby_buffer_m df))"
  unfolding groupby_buffer_m_def
  by (rule distinct_dc_keys_groups [OF assms]) simp

subsection \<open>Examples\<close>

definition repeated_data_center :: "aoi_features list" where
  "repeated_data_center =
     [\<lparr> df_aoi_id = ''dc_1'', is_data_center = 1, df_buffer_m = Finite 500, feats = [Finite 0] \<rparr>,
      \<lparr> df_aoi_id = ''dc_1'', is_data_center = 1, df_buffer_m = Finite 500, feats = [Finite 0] \<rparr>,
      \<lparr> df_aoi_id = ''ctrl_1'', is_data_center = 0, df_buffer_m = Finite 500, feats = [Finite 0] \<rparr>,
      \<lparr> df_aoi_id = ''ctrl_2'', is_data_center = 0, df_buffer_m = Finite 500, feats = [Finite 0] \<rparr>]"



lemmas distance_eval =
  standardized_distance_def ncols_def scaler_fit_def columns_def pd_mean_def nan_var_def
  dropna_def np_mean_def fsum_def sum_sq_dev_def fsub_def scaler_transform_def euclidean_def

lemma groupby_twin_controls: "groupby_buffer_m twin_controls = [(Finite 500, twin_controls)]"
  by (simp add: groupby_buffer_m_def twin_controls_def dropna_def np_sort_def)

lemma groupby_repeated_data_center:
  "groupby_buffer_m repeated_data_center = [(Finite 500, repeated_data_center)]"
  by (simp add: groupby_buffer_m_def repeated_data_center_def dropna_def np_sort_def)

lemma twin_controls_distance:
  "\<exists>d. standardized_distance [[Finite 0], [Finite 0]] [[Finite 3]] = Inr d
       \<and> d 0 0 = Finite (3 / sqrt 2) \<and> d 0 (Suc 0) = Finite (3 / sqrt 2)"
  by (simp add: distance_eval Let_def) (auto simp: real_sqrt_divide real_sqrt_mult)

lemma zero_distance:
  "\<exists>d. standardized_distance [[Finite 0], [Finite 0]] [[Finite 0], [Finite 0]] = Inr d
       \<and> d 0 0 = Finite 0 \<and> d 0 (Suc 0) = Finite 0
       \<and> d (Suc 0) 0 = Finite 0 \<and> d (Suc 0) (Suc 0) = Finite 0"
  by (simp add: distance_eval Let_def)

lemma twin_controls_matches:
  "match_controls True k twin_controls =
     Inr (if k \<le> 1
          then [\<lparr> data_center_aoi_id = ''dc_1'', control_aoi_id = ''ctrl_1'',
                  buffer_m = Finite 500, match_rank = 0, distance = Finite (3 / sqrt 2) \<rparr>]
          else [\<lparr> data_center_aoi_id = ''dc_1'', control_aoi_id = ''ctrl_1'',
                  buffer_m = Finite 500, match_rank = 0, distance = Finite (3 / sqrt 2) \<rparr>,
                \<lparr> data_center_aoi_id = ''dc_1'', control_aoi_id = ''ctrl_2'',
                  buffer_m = Finite 500, match_rank = 1, distance = Finite (3 / sqrt 2) \<rparr>])"
proof -
  from twin_controls_distance obtain d where
    d: "standardized_distance [[Finite 0], [Finite 0]] [[Finite 3]] = Inr d"
      "d 0 0 = Finite (3 / sqrt 2)" "d 0 (Suc 0) = Finite (3 / sqrt 2)"
    by blast
  have a: "argsort (d 0) (Suc (Suc 0)) = [0, 1]"
    using d by (simp add: argsort_def)
  show ?thesis
    by (simp add: match_controls_def groupby_twin_controls match_group_def)
       (simp add: twin_controls_def d a Let_def)
qed

lemma repeated_data_center_matches:
  "match_controls True 1 repeated_data_center =
     Inr [\<lparr> data_center_aoi_id = ''dc_1'', control_aoi_id = ''ctrl_1'',
             buffer_m = Finite 500, match_rank = 0, distance = Finite 0 \<rparr>,
          \<lparr> data_center_aoi_id = ''dc_1'', control_aoi_id = ''ctrl_2'',
             buffer_m = Finite 500, match_rank = 0, distance = Finite 0 \<rparr>]"
proof -
  from zero_distance obtain d where
    d: "standardized_distance [[Finite 0], [Finite 0]] [[Finite 0], [Finite 0]] = Inr d"
      "d 0 0 = Finite 0" "d 0 (Suc 0) = Finite 0"
      "d (Suc 0) 0 = Finite 0" "d (Suc 0) (Suc 0) = Finite 0"
    by blast
  have a: "argsort (d 0) (Suc (Suc 0)) = [0, 1]" "argsort (d (Suc 0)) (Suc (Suc 0)) = [0, 1]"
    using d by (simp_all add: argsort_def)
  show ?thesis
    by (simp add: match_controls_def groupby_repeated_data_center match_group_def)
       (simp add: repeated_data_center_def d a Let_def)
qed


section \<open>Match records without reuse\<close>

text \<open>
  Claim C2, as stated, fails in three places. Two controls with the same covariates are
  at the same distance from the data center, so ranks 0 and 1 carry equal distances and
  the distance is not strictly increasing in the rank. With \<open>k = 0\<close> every data center
  still gets the record of rank 0, since the loop tests \<open>picked >= k\<close> after the
  append. And a treatment AOI that occurs on two rows of \<open>df\<close> gets rank 0 twice.
\<close>

theorem match_ranks_not_strict:
  "match_controls True 2 twin_controls =
     Inr [\<lparr> data_center_aoi_id = ''dc_1'', control_aoi_id = ''ctrl_1'',
             buffer_m = Finite 500, match_rank = 0, distance = Finite (3 / sqrt 2) \<rparr>,
          \<lparr> data_center_aoi_id = ''dc_1'', control_aoi_id = ''ctrl_2'',
             buffer_m = Finite 500, match_rank = 1, distance = Finite (3 / sqrt 2) \<rparr>]
   \<and> \<not> flt (Finite (3 / sqrt 2)) (Finite (3 / sqrt 2))
   \<and> match_controls True 0 twin_controls =
     Inr [\<lparr> data_center_aoi_id = ''dc_1'', control_aoi_id = ''ctrl_1'',
             buffer_m = Finite 500, match_rank = 0, distance = Finite (3 / sqrt 2) \<rparr>]
   \<and> match_controls True 1 repeated_data_center =
     Inr [\<lparr> data_center_aoi_id = ''dc_1'', control_aoi_id = ''ctrl_1'',
             buffer_m = Finite 500, match_rank = 0, distance = Finite 0 \<rparr>,
          \<lparr> data_center_aoi_id = ''dc_1'', control_aoi_id = ''ctrl_2'',
             buffer_m = Finite 500, match_rank = 0, distance = Finite 0 \<rparr>]"
  using twin_controls_matches [of 2] twin_controls_matches [of 0] repeated_data_center_matches
  by (simp add: flt_def)

text \<open>
  Claim C2, amended. With \<open>no_reuse\<close>, no control AOI occurs in two match records of
  the output. When \<open>k\<close> is at least 1 and no treatment AOI occurs on two rows of \<open>df\<close>,
  the records of every treatment AOI and buffer, in the order of the output, have the
  ranks \<open>0, 1, ...\<close>, are at most \<open>k\<close>, and their distances are in the order of
  \<^verbatim>\<open>np.argsort\<close>: ascending, equal distances allowed, \<open>NaN\<close> last.
\<close>

theorem match_records_no_reuse:
  assumes "match_controls True k df = Inr results"
  shows "distinct (map control_aoi_id results)
     \<and> (1 \<le> k \<and> distinct (map df_aoi_id (filter (\<lambda>r. is_data_center r = 1) df)) \<longrightarrow>
         (\<forall>t bf. let b = filter (\<lambda>r. data_center_aoi_id r = t \<and> buffer_m r = bf) results in
            map match_rank b = [0..<length b] \<and> int (length b) \<le> k
            \<and> sorted (map (\<lambda>r. fkey (distance r)) b)))"
proof (intro conjI impI allI)
  from assms obtain used where
    g: "match_groups True k (groupby_buffer_m df) {} = Inr (results, used)"
    by (auto simp: match_controls_def split: sum.splits prod.splits)
  from match_groups_no_reuse [OF g] show "distinct (map control_aoi_id results)"
    by simp
  fix t bf
  assume a: "1 \<le> k \<and> distinct (map df_aoi_id (filter (\<lambda>r. is_data_center r = 1) df))"
  then have k: "1 \<le> k" and d: "distinct (dc_keys (groupby_buffer_m df))"
    by (simp_all add: distinct_dc_keys)
  from match_groups_blocks [OF k g] obtain bs where
    bs: "results = concat bs" "keyed_blocks k (dc_keys (groupby_buffer_m df)) bs"
    by blast
  from k have "0 \<le> k" by simp
  from filter_keyed_blocks [OF bs(2) d this, of "(t, bf)"]
  have "rank_block k (filter (\<lambda>r. data_center_aoi_id r = t \<and> buffer_m r = bf) results)"
    by (simp add: bs(1) match_key_def)
  then show "let b = filter (\<lambda>r. data_center_aoi_id r = t \<and> buffer_m r = bf) results in
            map match_rank b = [0..<length b] \<and> int (length b) \<le> k
            \<and> sorted (map (\<lambda>r. fkey (distance r)) b)"
    by (simp add: rank_block_def Let_def)
qed

theorem match_records_no_reuse_witness:
  "(\<exists>results. match_controls True 2 twin_controls = Inr results
      \<and> map control_aoi_id results = [''ctrl_1'', ''ctrl_2'']
      \<and> distinct (map control_aoi_id results)
      \<and> map match_rank (filter (\<lambda>r. data_center_aoi_id r = ''dc_1'' \<and> buffer_m r = Finite 500)
            results) = [0, 1])
   \<and> (1::int) \<le> 2
   \<and> distinct (map df_aoi_id (filter (\<lambda>r. is_data_center r = 1) twin_controls))"
proof -
  let ?results = "[\<lparr> data_center_aoi_id = ''dc_1'', control_aoi_id = ''ctrl_1'',
             buffer_m = Finite 500, match_rank = 0, distance = Finite (3 / sqrt 2) \<rparr>,
          \<lparr> data_center_aoi_id = ''dc_1'', control_aoi_id = ''ctrl_2'',
             buffer_m = Finite 500, match_rank = 1, distance = Finite (3 / sqrt 2) \<rparr>]"
  have r: "match_controls True 2 twin_controls = Inr ?results"
    using twin_controls_matches [of 2] by simp
  have d: "distinct (map df_aoi_id (filter (\<lambda>r. is_data_center r = 1) twin_controls))"
    by (simp add: twin_controls_def)
  from match_records_no_reuse [OF r] d
  have "distinct (map control_aoi_id ?results)"
    and "map match_rank (filter (\<lambda>r. data_center_aoi_id r = ''dc_1'' \<and> buffer_m r = Finite 500)
            ?results) = [0 ..< length (filter (\<lambda>r. data_center_aoi_id r = ''dc_1''
              \<and> buffer_m r = Finite 500) ?results)]"
    by (simp_all add: Let_def)
  with r d show ?thesis
    by (simp add: upt_conv_Cons)
qed

section \<open>One set of used controls for all buffer groups\<close>





end
